theory Spec2Isabelle
  imports Main "HOL-Library.Word" "HOL-Library.Sublist"
begin

section \<open>JavaScript strings\<close>

text \<open>
  A JavaScript string is a sequence of UTF-16 code units, and \<open>s.length\<close> counts code
  units. The node's Japanese image label lies outside ASCII, so strings are lists of
  16-bit words rather than HOL's 8-bit characters; \<open>str\<close> embeds an ASCII literal.
\<close>

type_synonym jschar = "16 word"

type_synonym jsstring = "jschar list"

definition str :: "string \<Rightarrow> jsstring" where
  "str s = map (\<lambda>c. of_nat (of_char c)) s"

definition dq :: jschar where "dq = 0x22"   \<comment> \<open>the double quote\<close>

definition bs :: jschar where "bs = 0x5C"   \<comment> \<open>the backslash\<close>

definition nl :: jschar where "nl = 0x0A"   \<comment> \<open>the line feed, \<open>\n\<close>\<close>

definition sp :: jschar where "sp = 0x20"   \<comment> \<open>the space\<close>

text \<open>\<open>Array.prototype.join(sep)\<close>.\<close>

fun join :: "jsstring \<Rightarrow> jsstring list \<Rightarrow> jsstring" where
  "join sep [] = []"
| "join sep [x] = x"
| "join sep (x # y # ys) = x @ sep @ join sep (y # ys)"

text \<open>\<open>s.replace(/"/g, '\\"')\<close>: every double quote becomes backslash, double quote.\<close>

definition escapeQuotes :: "jsstring \<Rightarrow> jsstring" where
  "escapeQuotes s = concat (map (\<lambda>c. if c = dq then [bs, dq] else [c]) s)"

text \<open>\<open>s.replace(/\n/g, ' ')\<close>: every line feed becomes one space.\<close>

definition newlinesToSpaces :: "jsstring \<Rightarrow> jsstring" where
  "newlinesToSpaces s = map (\<lambda>c. if c = nl then sp else c) s"

text \<open>
  \<open>String.prototype.trim\<close> strips the ECMAScript WhiteSpace and LineTerminator code
  points from both ends; all of them are single code units.
\<close>

definition isWhiteSpace :: "jschar \<Rightarrow> bool" where
  "isWhiteSpace c \<longleftrightarrow>
     c \<in> {0x09, 0x0A, 0x0B, 0x0C, 0x0D, 0x20, 0xA0, 0x1680, 0x2028, 0x2029,
          0x202F, 0x205F, 0x3000, 0xFEFF}
     \<or> (0x2000 \<le> c \<and> c \<le> 0x200A)"

definition trim :: "jsstring \<Rightarrow> jsstring" where
  "trim s = rev (dropWhile isWhiteSpace (rev (dropWhile isWhiteSpace s)))"

text \<open>\<open>s.split('\n')\<close>: the lines of a string.\<close>

fun splitLines :: "jsstring \<Rightarrow> jsstring list" where
  "splitLines [] = [[]]"
| "splitLines (c # cs) =
     (if c = nl then [] # splitLines cs
      else (case splitLines cs of [] \<Rightarrow> [[c]] | l # ls \<Rightarrow> (c # l) # ls))"

text \<open>The decimal digits of a natural number, most significant first.\<close>

fun digits :: "nat \<Rightarrow> jsstring" where
  "digits n = (if n < 10 then [of_nat (48 + n)] else digits (n div 10) @ [of_nat (48 + n mod 10)])"

declare digits.simps [simp del]

section \<open>Data model\<close>

text \<open>
  The option collection as \<open>getNodeParameter('options', i, {})\<close> returns it: every entry
  may be absent (\<open>None\<close> is \<open>undefined\<close>). A number entry is an integer or \<open>NaN\<close>.
\<close>

datatype jsnumber = NaN | Num int

datatype image_handling = Include | AltText | Remove

datatype heading_style = Atx | Setext

datatype code_block_style = Fenced | Indented

record options =
  opt_timeout :: "jsnumber option"
  opt_includeLinks :: "bool option"
  opt_imageHandling :: "image_handling option"
  opt_headingStyle :: "heading_style option"
  opt_codeBlockStyle :: "code_block_style option"
  opt_includeFrontmatter :: "bool option"

text \<open>The parameters of one input item; a missing \<open>url\<close> is \<open>None\<close>.\<close>

record item =
  param_url :: "jsstring option"
  param_options :: options

text \<open>The document tree: elements with a tag name, attributes and children; text; comments.\<close>

datatype node =
    Element jsstring "(jsstring \<times> jsstring) list" "node list"
  | Text jsstring
  | Comment jsstring

text \<open>What \<open>Readability.parse\<close> returns when it finds an article (\<open>null\<close> fields are \<open>None\<close>).\<close>

record article =
  title :: "jsstring option"
  byline :: "jsstring option"
  excerpt :: "jsstring option"
  siteName :: "jsstring option"
  content :: node

text \<open>The part of a fetch \<open>Response\<close> the node reads.\<close>

record response =
  ok :: bool
  status :: nat
  statusText :: jsstring
  resp_url :: jsstring
  resp_text :: jsstring

text \<open>
  Thrown values: the node's own \<open>NodeOperationError\<close> (message, item index) and any other
  \<open>Error\<close> (name, message), such as the \<open>AbortError\<close> of a cancelled fetch.
\<close>

datatype thrown =
    NodeOperationError jsstring nat
  | JsError jsstring jsstring

fun error_name :: "thrown \<Rightarrow> jsstring" where
  "error_name (NodeOperationError m i) = str ''NodeOperationError''"
| "error_name (JsError n m) = n"

fun error_message :: "thrown \<Rightarrow> jsstring" where
  "error_message (NodeOperationError m i) = m"
| "error_message (JsError n m) = m"

text \<open>The \<open>json\<close> of one output item: the success record, or \<open>{error: message}\<close>.\<close>

record result =
  json_url :: jsstring
  json_title :: "jsstring option"
  json_byline :: "jsstring option"
  json_excerpt :: "jsstring option"
  json_siteName :: "jsstring option"
  json_markdown :: jsstring
  json_contentLength :: nat

datatype execution_data = Json result | JsonError jsstring

section \<open>The Markdown converter\<close>

text \<open>
  Modelled from the spec: the conversion engine is the Turndown library, which is not part
  of the repository's sources. The spec (sections 3 and 4.3) describes it as a depth-first
  walk that converts the children of a node before applying the node's own rule, where a
  rule pairs a predicate over nodes with a replacement taking the converted children text
  and the node, and where rules added by the caller are consulted before the default rule
  table. The default table (which depends on the heading and code-block styles and ends in
  a catch-all), the rendering of text and comment nodes, and the final whitespace
  normalisation belong to the library and are parameters of the model.
\<close>

record rule =
  filter_of :: "node \<Rightarrow> bool"
  replacement :: "jsstring \<Rightarrow> node \<Rightarrow> jsstring"

record turndown_lib =
  defaultReplacement :: "heading_style \<Rightarrow> code_block_style \<Rightarrow> jsstring \<Rightarrow> node \<Rightarrow> jsstring"
  renderLeaf :: "node \<Rightarrow> jsstring"
  postProcess :: "jsstring \<Rightarrow> jsstring"

record turndown_service =
  ts_headingStyle :: heading_style
  ts_codeBlockStyle :: code_block_style
  ts_rules :: "rule list"

text \<open>Modelled from the spec: a tag-name filter such as \<open>filter: 'a'\<close> selects the elements of that tag.\<close>

fun hasTag :: "string \<Rightarrow> node \<Rightarrow> bool" where
  "hasTag t (Element tag attrs kids) = (tag = str t)"
| "hasTag t (Text s) = False"
| "hasTag t (Comment s) = False"

text \<open>\<open>node.getAttribute(name)\<close>; \<open>null\<close> is \<open>None\<close>.\<close>

fun getAttribute :: "node \<Rightarrow> string \<Rightarrow> jsstring option" where
  "getAttribute (Element tag attrs kids) name = map_of attrs (str name)"
| "getAttribute (Text s) name = None"
| "getAttribute (Comment s) name = None"

text \<open>Modelled from the spec: \<open>addRule\<close> registers a caller's rule, consulted before the default table.\<close>

definition addRule :: "rule \<Rightarrow> turndown_service \<Rightarrow> turndown_service" where
  "addRule r ts = ts\<lparr>ts_rules := ts_rules ts @ [r]\<rparr>"

text \<open>Modelled from the spec: the replacement for an element, given its converted children text.\<close>

definition replacementForNode :: "turndown_lib \<Rightarrow> turndown_service \<Rightarrow> jsstring \<Rightarrow> node \<Rightarrow> jsstring" where
  "replacementForNode lib ts inner n =
     (case find (\<lambda>r. filter_of r n) (ts_rules ts) of
        Some r \<Rightarrow> replacement r inner n
      | None \<Rightarrow> defaultReplacement lib (ts_headingStyle ts) (ts_codeBlockStyle ts) inner n)"

text \<open>Modelled from the spec: the bottom-up walk.\<close>

fun process :: "turndown_lib \<Rightarrow> turndown_service \<Rightarrow> node \<Rightarrow> jsstring" where
  "process lib ts (Element tag attrs kids) =
     replacementForNode lib ts (concat (map (process lib ts) kids)) (Element tag attrs kids)"
| "process lib ts (Text s) = renderLeaf lib (Text s)"
| "process lib ts (Comment s) = renderLeaf lib (Comment s)"

text \<open>Modelled from the spec: \<open>turndown\<close> walks the tree and normalises the whitespace of the result.\<close>

definition turndown :: "turndown_lib \<Rightarrow> turndown_service \<Rightarrow> node \<Rightarrow> jsstring" where
  "turndown lib ts root = postProcess lib (process lib ts root)"

subsection \<open>The rules the node adds\<close>

text \<open>\<open>{ filter: 'a', replacement: (content) => content }\<close>\<close>

definition removeLinks :: rule where
  "removeLinks = \<lparr>filter_of = hasTag ''a'', replacement = (\<lambda>inner n. inner)\<rparr>"

text \<open>\<open>{ filter: 'img', replacement: () => '' }\<close>\<close>

definition removeImages :: rule where
  "removeImages = \<lparr>filter_of = hasTag ''img'', replacement = (\<lambda>inner n. [])\<rparr>"

text \<open>The label of the alt-text placeholder: the two code units U+753B, U+50CF.\<close>

definition imageLabel :: jsstring where
  "imageLabel = [0x753B, 0x50CF]"

text \<open>
  The replacement of the \<open>imageAltText\<close> rule: a missing, empty or all-whitespace \<open>alt\<close>
  gives the bare label in brackets, any other the label, a colon and the trimmed text.
\<close>

definition imageAltTextReplacement :: "jsstring \<Rightarrow> node \<Rightarrow> jsstring" where
  "imageAltTextReplacement inner n =
     (case getAttribute n ''alt'' of
        None \<Rightarrow> str ''['' @ imageLabel @ str '']''
      | Some alt \<Rightarrow>
          if alt \<noteq> [] \<and> trim alt \<noteq> []
          then str ''['' @ imageLabel @ str '': '' @ trim alt @ str '']''
          else str ''['' @ imageLabel @ str '']'')"

definition imageAltText :: rule where
  "imageAltText = \<lparr>filter_of = hasTag ''img'', replacement = imageAltTextReplacement\<rparr>"

section \<open>The pipeline\<close>

subsection \<open>Option defaults\<close>

text \<open>
  \<open>(options.timeout as number) || 30\<close>: \<open>undefined\<close>, \<open>0\<close> and \<open>NaN\<close> are falsy, so each of
  them gives 30.
\<close>

definition timeout :: "options \<Rightarrow> int" where
  "timeout opts =
     (case opt_timeout opts of
        None \<Rightarrow> 30
      | Some NaN \<Rightarrow> 30
      | Some (Num n) \<Rightarrow> if n = 0 then 30 else n)"

text \<open>\<open>options.includeLinks !== false\<close>\<close>

definition includeLinks :: "options \<Rightarrow> bool" where
  "includeLinks opts \<longleftrightarrow> opt_includeLinks opts \<noteq> Some False"

text \<open>\<open>options.imageHandling || 'include'\<close>, and likewise for the two styles.\<close>

definition imageHandling :: "options \<Rightarrow> image_handling" where
  "imageHandling opts = (case opt_imageHandling opts of None \<Rightarrow> Include | Some h \<Rightarrow> h)"

definition headingStyle :: "options \<Rightarrow> heading_style" where
  "headingStyle opts = (case opt_headingStyle opts of None \<Rightarrow> Atx | Some h \<Rightarrow> h)"

definition codeBlockStyle :: "options \<Rightarrow> code_block_style" where
  "codeBlockStyle opts = (case opt_codeBlockStyle opts of None \<Rightarrow> Fenced | Some c \<Rightarrow> c)"

text \<open>\<open>options.includeFrontmatter === true\<close>\<close>

definition includeFrontmatter :: "options \<Rightarrow> bool" where
  "includeFrontmatter opts \<longleftrightarrow> opt_includeFrontmatter opts = Some True"

subsection \<open>The outside world\<close>

text \<open>
  What the run of one item meets outside the node. The network answers the request of
  item \<open>i\<close> for a URL after some milliseconds, with a response or with a failure;
  \<open>readability\<close> is \<open>new Readability(new JSDOM(html, {url}).window.document).parse()\<close>,
  \<open>None\<close> for \<open>null\<close>; \<open>toISOString\<close> is \<open>new Date().toISOString()\<close> at item \<open>i\<close>;
  \<open>unsafeNumberToString\<close> is the platform's number-to-string conversion outside the safe
  integers.
\<close>

datatype net_reply = Reply nat response | NetFail nat thrown

record world =
  continueOnFail :: bool
  network :: "nat \<Rightarrow> jsstring \<Rightarrow> net_reply"
  readability :: "jsstring \<Rightarrow> jsstring \<Rightarrow> article option"
  toISOString :: "nat \<Rightarrow> jsstring"
  unsafeNumberToString :: "int \<Rightarrow> jsstring"
  turndownLib :: turndown_lib

text \<open>The milliseconds after which the network settles a request.\<close>

fun latency :: "net_reply \<Rightarrow> nat" where
  "latency (Reply ms r) = ms"
| "latency (NetFail ms e) = ms"

text \<open>
  Number-to-string conversion of a template literal, on integers. A safe integer (at most
  \<open>2^53 - 1\<close> in magnitude) is printed as its decimal digits, with a minus sign when
  negative. Beyond the safe integers JavaScript prints the shortest digits that read
  back as the same double, in exponent form from \<open>10^21\<close>; that part is the platform's
  and is a parameter of the world.
\<close>

definition numberToString :: "world \<Rightarrow> int \<Rightarrow> jsstring" where
  "numberToString w n =
     (if \<bar>n\<bar> \<le> 9007199254740991
      then (if n < 0 then str ''-'' @ digits (nat (- n)) else digits (nat n))
      else unsafeNumberToString w n)"

definition AbortError :: thrown where
  "AbortError = JsError (str ''AbortError'') (str ''This operation was aborted'')"

text \<open>
  \<open>fetch(url, {signal})\<close> under \<open>setTimeout(() => controller.abort(), timeout * 1000)\<close>: the
  timer fires after \<open>timeout * 1000\<close> milliseconds, and a fetch that has not settled by
  then rejects with an \<open>AbortError\<close>; otherwise it settles as the network answers.
\<close>

definition fetch :: "world \<Rightarrow> nat \<Rightarrow> jsstring \<Rightarrow> int \<Rightarrow> thrown + response" where
  "fetch w i u secs =
     (case network w i u of
        Reply ms r \<Rightarrow> if secs * 1000 \<le> int ms then Inl AbortError else Inr r
      | NetFail ms e \<Rightarrow> if secs * 1000 \<le> int ms then Inl AbortError else Inl e)"

text \<open>
  The inner \<open>try\<close>/\<open>catch\<close> around the fetch: it yields the HTML and the final URL, and it
  turns an \<open>AbortError\<close> into the time-out error and rethrows every other error, also
  its own error for a response that is not \<open>ok\<close>.
\<close>

definition fetchHtml :: "world \<Rightarrow> nat \<Rightarrow> jsstring \<Rightarrow> int \<Rightarrow> thrown + (jsstring \<times> jsstring)" where
  "fetchHtml w i u secs =
     (let attempt =
        (case fetch w i u secs of
           Inl e \<Rightarrow> Inl e
         | Inr r \<Rightarrow>
             if \<not> ok r
             then Inl (NodeOperationError
                    (str ''Failed to fetch URL: '' @ numberToString w (int (status r)) @ str '' '' @ statusText r) i)
             else Inr (resp_text r, resp_url r))
      in case attempt of
           Inl fetchError \<Rightarrow>
             if error_name fetchError = str ''AbortError''
             then Inl (NodeOperationError
                    (str ''Request timed out after '' @ numberToString w secs @ str '' seconds'') i)
             else Inl fetchError
         | Inr v \<Rightarrow> Inr v)"

subsection \<open>Frontmatter\<close>

text \<open>A metadata line is pushed only for a truthy field: neither \<open>null\<close> nor the empty string.\<close>

definition fieldLine :: "string \<Rightarrow> (jsstring \<Rightarrow> jsstring) \<Rightarrow> jsstring option \<Rightarrow> jsstring list" where
  "fieldLine key esc v =
     (case v of
        None \<Rightarrow> []
      | Some s \<Rightarrow> if s = [] then [] else [str key @ str '': '' @ [dq] @ esc s @ [dq]])"

text \<open>\<open>article.excerpt.replace(/"/g, '\\"').replace(/\n/g, ' ')\<close>\<close>

definition escapedExcerpt :: "jsstring \<Rightarrow> jsstring" where
  "escapedExcerpt s = newlinesToSpaces (escapeQuotes s)"

definition frontmatterLines :: "article \<Rightarrow> jsstring \<Rightarrow> jsstring \<Rightarrow> jsstring list" where
  "frontmatterLines a finalUrl now =
     [str ''---'']
     @ fieldLine ''title'' escapeQuotes (title a)
     @ [str ''url: '' @ [dq] @ finalUrl @ [dq]]
     @ fieldLine ''author'' escapeQuotes (byline a)
     @ fieldLine ''site'' escapeQuotes (siteName a)
     @ fieldLine ''excerpt'' escapedExcerpt (excerpt a)
     @ [str ''date: '' @ [dq] @ now @ [dq]]
     @ [str ''---'']
     @ [[]]"

subsection \<open>One item, and the batch\<close>

text \<open>The Turndown service the node configures from the options.\<close>

definition turndownService :: "options \<Rightarrow> turndown_service" where
  "turndownService opts =
     (let ts0 = \<lparr>ts_headingStyle = headingStyle opts, ts_codeBlockStyle = codeBlockStyle opts,
                  ts_rules = []\<rparr>;
          ts1 = (if \<not> includeLinks opts then addRule removeLinks ts0 else ts0)
      in if imageHandling opts = Remove then addRule removeImages ts1
         else if imageHandling opts = AltText then addRule imageAltText ts1
         else ts1)"

text \<open>
  The body of the \<open>try\<close> block for item \<open>i\<close>: the value it pushes or the error it throws,
  together with the URLs it has sent a request to.
\<close>

definition execute_item :: "world \<Rightarrow> nat \<Rightarrow> item \<Rightarrow> (thrown + result) \<times> jsstring list" where
  "execute_item w i it =
     (let opts = param_options it in
      case param_url it of
        None \<Rightarrow> (Inl (NodeOperationError (str ''URL is required'') i), [])
      | Some u \<Rightarrow>
          if u = [] then (Inl (NodeOperationError (str ''URL is required'') i), [])
          else
            (case fetchHtml w i u (timeout opts) of
               Inl e \<Rightarrow> (Inl e, [u])
             | Inr (html, finalUrl) \<Rightarrow>
                 (case readability w html finalUrl of
                    None \<Rightarrow>
                      (Inl (NodeOperationError
                         (str ''Failed to parse article content from the page'') i), [u])
                  | Some a \<Rightarrow>
                      let body = turndown (turndownLib w) (turndownService opts) (content a);
                          markdown =
                            (if includeFrontmatter opts
                             then join [nl] (frontmatterLines a finalUrl (toISOString w i)) @ body
                             else body)
                      in (Inr \<lparr>json_url = finalUrl, json_title = title a,
                                json_byline = byline a, json_excerpt = excerpt a,
                                json_siteName = siteName a, json_markdown = markdown,
                                json_contentLength = length markdown\<rparr>, [u]))))"

text \<open>
  The loop of \<open>execute\<close> from item \<open>i\<close> on, with the data pushed so far: a failing item is
  replaced by \<open>{error: message}\<close> when \<open>continueOnFail()\<close> holds, and otherwise its error
  leaves the loop. The second component collects the requests sent.
\<close>

fun execute_from :: "world \<Rightarrow> nat \<Rightarrow> item list \<Rightarrow> execution_data list \<Rightarrow> (thrown + execution_data list) \<times> jsstring list" where
  "execute_from w i [] returnData = (Inr returnData, [])"
| "execute_from w i (it # items) returnData =
     (case execute_item w i it of
        (Inr r, reqs) \<Rightarrow>
          (case execute_from w (Suc i) items (returnData @ [Json r]) of
             (res, reqs') \<Rightarrow> (res, reqs @ reqs'))
      | (Inl e, reqs) \<Rightarrow>
          if continueOnFail w
          then (case execute_from w (Suc i) items (returnData @ [JsonError (error_message e)]) of
                  (res, reqs') \<Rightarrow> (res, reqs @ reqs'))
          else (Inl e, reqs))"

text \<open>What the loop pushes for item \<open>i\<close> in continue-on-fail mode.\<close>

definition item_output :: "world \<Rightarrow> nat \<Rightarrow> item \<Rightarrow> execution_data" where
  "item_output w i it =
     (case fst (execute_item w i it) of
        Inr r \<Rightarrow> Json r
      | Inl e \<Rightarrow> JsonError (error_message e))"

definition execute :: "world \<Rightarrow> item list \<Rightarrow> (thrown + execution_data list) \<times> jsstring list" where
  "execute w items = execute_from w 0 items []"

section \<open>Documents without links or images\<close>






section \<open>A sample run\<close>

text \<open>
  A small world for running the definitions: a page that redirects to its \<open>https\<close>
  address, a page with an empty body (on which the extractor finds nothing), a slow
  page, a page that is not found, and no other host. The sample library renders a link
  as \<open>[text](href)\<close> and an image as \<open>![alt](src)\<close> by default, and trims the result.
\<close>

definition sampleArticle :: article where
  "sampleArticle =
     \<lparr>title = Some (str ''Say '' @ [dq] @ str ''hi'' @ [dq]),
      byline = None,
      excerpt = Some (str ''One'' @ [nl] @ str ''two''),
      siteName = Some (str ''Example''),
      content =
        Element (str ''p'') []
          [Text (str ''Hello ''),
           Element (str ''a'') [(str ''href'', str ''https://x''), (str ''title'', str ''t'')]
             [Text (str ''world'')],
           Element (str ''img'') [(str ''src'', str ''https://x/c.png''), (str ''alt'', str '' cat '')] []]\<rparr>"

definition sampleLib :: turndown_lib where
  "sampleLib =
     \<lparr>defaultReplacement = (\<lambda>hs cbs inner n.
        if hasTag ''a'' n
        then str ''['' @ inner @ str ''](''
             @ (case getAttribute n ''href'' of None \<Rightarrow> [] | Some h \<Rightarrow> h) @ str '')''
        else if hasTag ''img'' n
        then str ''!['' @ (case getAttribute n ''alt'' of None \<Rightarrow> [] | Some a \<Rightarrow> a) @ str ''](''
             @ (case getAttribute n ''src'' of None \<Rightarrow> [] | Some h \<Rightarrow> h) @ str '')''
        else inner),
      renderLeaf = (\<lambda>n. case n of Text s \<Rightarrow> s | _ \<Rightarrow> []),
      postProcess = trim\<rparr>"

definition emptyPage :: jsstring where
  "emptyPage = str ''<html><body></body></html>''"

definition sampleResponse :: "jsstring \<Rightarrow> response" where
  "sampleResponse html =
     \<lparr>ok = True, status = 200, statusText = str ''OK'',
      resp_url = str ''https://example.com/a'', resp_text = html\<rparr>"

definition sampleNetwork :: "nat \<Rightarrow> jsstring \<Rightarrow> net_reply" where
  "sampleNetwork i u =
     (if u = str ''http://example.com/a'' then Reply 120 (sampleResponse (str ''<html>...</html>''))
      else if u = str ''http://example.com/empty'' then Reply 80 (sampleResponse emptyPage)
      else if u = str ''http://example.com/slow'' then Reply 45000 (sampleResponse (str ''<html>...</html>''))
      else if u = str ''http://example.com/missing''
      then Reply 50 \<lparr>ok = False, status = 404, statusText = str ''Not Found'',
                       resp_url = u, resp_text = []\<rparr>
      else NetFail 5 (JsError (str ''TypeError'') (str ''fetch failed'')))"

definition sampleWorld :: "bool \<Rightarrow> world" where
  "sampleWorld cof =
     \<lparr>continueOnFail = cof,
      network = sampleNetwork,
      readability = (\<lambda>html u. if html = emptyPage then None else Some sampleArticle),
      toISOString = (\<lambda>i. str ''2024-01-01T00:00:00.000Z''),
      unsafeNumberToString = (\<lambda>n. str ''1e+21''),
      turndownLib = sampleLib\<rparr>"



definition noOptions :: options where
  "noOptions =
     \<lparr>opt_timeout = None, opt_includeLinks = None, opt_imageHandling = None,
      opt_headingStyle = None, opt_codeBlockStyle = None, opt_includeFrontmatter = None\<rparr>"

definition sampleItem :: "string \<Rightarrow> options \<Rightarrow> item" where
  "sampleItem u opts = \<lparr>param_url = Some (str u), param_options = opts\<rparr>"

section \<open>Facts about strings\<close>

lemma str_Nil [simp]: "str [] = []"
  by (simp add: str_def)

lemma str_append: "str (a @ b) = str a @ str b"
  by (simp add: str_def)

lemma length_str [simp]: "length (str s) = length s"
  by (simp add: str_def)

lemma jschar_of_char_inj: "(of_nat (of_char c) :: jschar) = of_nat (of_char d) \<longleftrightarrow> c = d"
proof -
  have "(of_char x :: nat) < 2 ^ 16" for x
    by (rule less_trans [OF nat_of_char_less_256]) simp
  then have "take_bit 16 (of_char x :: nat) = of_char x" for x
    by (simp add: take_bit_nat_eq_self)
  then show ?thesis
    by (simp add: word_of_nat_eq_iff)
qed

lemma str_eq_iff [simp]: "str a = str b \<longleftrightarrow> a = b"
proof -
  have "inj (\<lambda>c. of_nat (of_char c) :: jschar)"
    by (rule injI) (simp add: jschar_of_char_inj)
  then show ?thesis
    unfolding str_def by simp
qed

lemma str_eq_Nil_iff [simp]: "str a = [] \<longleftrightarrow> a = []"
  by (simp add: str_def)

lemma trim_Nil [simp]: "trim [] = []"
  by (simp add: trim_def)







text \<open>Joining lines that end in an empty string terminates every line with the separator.\<close>

lemma join_snoc_empty: "xs \<noteq> [] \<Longrightarrow> join sep (xs @ [[]]) = concat (map (\<lambda>l. l @ sep) xs)"
  by (induction sep xs rule: join.induct) auto




section \<open>Facts about trimming\<close>




section \<open>Facts about the decimal digits\<close>

lemma digit_unat: "k < 10 \<Longrightarrow> unat (48 + of_nat k :: jschar) = 48 + k"
proof -
  assume "k < 10"
  then have "48 + k < 2 ^ LENGTH(16)"
    by simp
  then have "unat (of_nat (48 + k) :: jschar) = 48 + k"
    by (simp only: unat_of_nat mod_less)
  then show ?thesis
    by simp
qed

lemma digit_uint: "k < 10 \<Longrightarrow> uint (48 + of_nat k :: jschar) = 48 + int k"
  using digit_unat [of k] by (simp add: uint_nat)

lemma digit_range: "k < 10 \<Longrightarrow> (0x30 :: jschar) \<le> 48 + of_nat k \<and> (48 + of_nat k :: jschar) \<le> 0x39"
  using digit_unat [of k] by (simp add: word_le_nat_alt)

lemma digits_nonempty: "digits n \<noteq> []"
  by (subst digits.simps) simp

lemma digits_range: "d \<in> set (digits n) \<Longrightarrow> 0x30 \<le> d \<and> d \<le> 0x39"
proof (induction n rule: digits.induct)
  case (1 n)
  show ?case
  proof (cases "n < 10")
    case True
    with "1.prems" have "d = of_nat (48 + n)"
      by (subst (asm) digits.simps) simp
    with True show ?thesis
      using digit_range [of n] by simp
  next
    case False
    with "1.prems" have "d \<in> set (digits (n div 10)) \<or> d = of_nat (48 + n mod 10)"
      by (subst (asm) digits.simps) auto
    then show ?thesis
    proof
      assume "d \<in> set (digits (n div 10))"
      with False "1.IH" show ?thesis by simp
    next
      assume "d = of_nat (48 + n mod 10)"
      then show ?thesis
        using digit_range [of "n mod 10"] by simp
    qed
  qed
qed

lemma digits_value: "foldl (\<lambda>a d. 10 * a + (uint d - 48)) 0 (digits n) = int n"
proof (induction n rule: digits.induct)
  case (1 n)
  show ?case
  proof (cases "n < 10")
    case True
    then show ?thesis
      by (subst digits.simps) (simp add: digit_uint)
  next
    case False
    have "foldl (\<lambda>a d. 10 * a + (uint d - 48)) 0 (digits n)
        = 10 * foldl (\<lambda>a d. 10 * a + (uint d - 48)) 0 (digits (n div 10))
          + (uint (of_nat (48 + n mod 10) :: jschar) - 48)"
      using False by (subst digits.simps) simp
    also have "\<dots> = 10 * int (n div 10) + int (n mod 10)"
      using False "1.IH" by (simp add: digit_uint)
    also have "\<dots> = int n"
      by (simp add: zdiv_int zmod_int)
    finally show ?thesis .
  qed
qed

lemma digits_leading: "hd (digits n) = 0x30 \<longleftrightarrow> n = 0"
proof (induction n rule: digits.induct)
  case (1 n)
  show ?case
  proof (cases "n < 10")
    case True
    have "unat (hd (digits n)) = 48 + n"
      using True by (subst digits.simps) (simp add: digit_unat)
    moreover have "hd (digits n) = 0x30 \<longleftrightarrow> unat (hd (digits n)) = 48"
      by (simp add: word_unat_eq_iff [of "hd (digits n)" "0x30"])
    ultimately show ?thesis
      by simp
  next
    case False
    have "hd (digits n) = hd (digits (n div 10))"
      using False digits_nonempty [of "n div 10"] by (subst digits.simps) simp
    with False "1.IH" show ?thesis
      by simp
  qed
qed

lemma digits_zero: "digits 0 = [0x30]"
  by (subst digits.simps) simp

lemma numberToString_safe:
  "\<bar>n\<bar> \<le> 9007199254740991 \<Longrightarrow>
   numberToString w n = (if n < 0 then str ''-'' else []) @ digits (nat \<bar>n\<bar>)"
  by (simp add: numberToString_def)

section \<open>Facts about the fetch\<close>

lemma error_name_AbortError [simp]: "error_name AbortError = str ''AbortError''"
  by (simp add: AbortError_def)

lemma fetch_late: "secs * 1000 \<le> int (latency (network w i u)) \<Longrightarrow> fetch w i u secs = Inl AbortError"
  by (cases "network w i u") (simp_all add: fetch_def)

lemma fetch_in_time:
  "network w i u = Reply ms r \<Longrightarrow> int ms < secs * 1000 \<Longrightarrow> fetch w i u secs = Inr r"
  by (simp add: fetch_def)

lemma fetchHtml_late:
  "secs * 1000 \<le> int (latency (network w i u)) \<Longrightarrow>
   fetchHtml w i u secs =
     Inl (NodeOperationError (str ''Request timed out after '' @ numberToString w secs @ str '' seconds'') i)"
  by (simp add: fetchHtml_def fetch_late)

lemma fetchHtml_ok:
  "network w i u = Reply ms r \<Longrightarrow> int ms < secs * 1000 \<Longrightarrow> ok r \<Longrightarrow>
   fetchHtml w i u secs = Inr (resp_text r, resp_url r)"
  by (simp add: fetchHtml_def fetch_in_time)

lemma fetchHtml_InrD:
  assumes "fetchHtml w i u secs = Inr (html, finalUrl)"
  shows "\<exists>ms r. network w i u = Reply ms r \<and> int ms < secs * 1000 \<and> ok r
           \<and> html = resp_text r \<and> finalUrl = resp_url r"
proof (cases "network w i u")
  case (Reply ms r)
  with assms show ?thesis
    by (auto simp: fetchHtml_def fetch_def split: if_splits)
next
  case (NetFail ms e)
  with assms show ?thesis
    by (auto simp: fetchHtml_def fetch_def split: if_splits)
qed

section \<open>Facts about the run of one item\<close>

text \<open>The run of an item whose page is fetched and parsed.\<close>

lemma execute_item_parsed:
  assumes "param_url it = Some u" and "u \<noteq> []"
    and "fetchHtml w i u (timeout (param_options it)) = Inr (html, finalUrl)"
    and "readability w html finalUrl = Some a"
  shows "execute_item w i it =
    (Inr \<lparr>json_url = finalUrl, json_title = title a, json_byline = byline a,
          json_excerpt = excerpt a, json_siteName = siteName a,
          json_markdown =
            (if includeFrontmatter (param_options it)
             then join [nl] (frontmatterLines a finalUrl (toISOString w i))
                  @ turndown (turndownLib w) (turndownService (param_options it)) (content a)
             else turndown (turndownLib w) (turndownService (param_options it)) (content a)),
          json_contentLength = length
            (if includeFrontmatter (param_options it)
             then join [nl] (frontmatterLines a finalUrl (toISOString w i))
                  @ turndown (turndownLib w) (turndownService (param_options it)) (content a)
             else turndown (turndownLib w) (turndownService (param_options it)) (content a))\<rparr>,
     [u])"
  using assms by (simp add: execute_item_def Let_def)

lemma execute_item_unparsed:
  assumes "param_url it = Some u" and "u \<noteq> []"
    and "fetchHtml w i u (timeout (param_options it)) = Inr (html, finalUrl)"
    and "readability w html finalUrl = None"
  shows "execute_item w i it =
    (Inl (NodeOperationError (str ''Failed to parse article content from the page'') i), [u])"
  using assms by (simp add: execute_item_def Let_def)

lemma execute_item_InrD:
  assumes "execute_item w i it = (Inr r, reqs)"
  shows "\<exists>u html finalUrl a. param_url it = Some u \<and> u \<noteq> []
           \<and> fetchHtml w i u (timeout (param_options it)) = Inr (html, finalUrl)
           \<and> readability w html finalUrl = Some a"
  using assms
  by (auto simp: execute_item_def Let_def split: option.splits if_splits sum.splits prod.splits)


text \<open>The frontmatter lines joined: every line up to the closing \<open>---\<close> ends in one line feed.\<close>

lemma frontmatterLines_text:
  "join [nl] (frontmatterLines a finalUrl now) =
     concat (map (\<lambda>l. l @ [nl])
       ([str ''---'']
        @ fieldLine ''title'' escapeQuotes (title a)
        @ [str ''url: '' @ [dq] @ finalUrl @ [dq]]
        @ fieldLine ''author'' escapeQuotes (byline a)
        @ fieldLine ''site'' escapeQuotes (siteName a)
        @ fieldLine ''excerpt'' escapedExcerpt (excerpt a)
        @ [str ''date: '' @ [dq] @ now @ [dq]]
        @ [str ''---'']))"
proof -
  let ?ls = "[str ''---'']
        @ fieldLine ''title'' escapeQuotes (title a)
        @ [str ''url: '' @ [dq] @ finalUrl @ [dq]]
        @ fieldLine ''author'' escapeQuotes (byline a)
        @ fieldLine ''site'' escapeQuotes (siteName a)
        @ fieldLine ''excerpt'' escapedExcerpt (excerpt a)
        @ [str ''date: '' @ [dq] @ now @ [dq]]
        @ [str ''---'']"
  have e: "frontmatterLines a finalUrl now = ?ls @ [[]]"
    by (simp add: frontmatterLines_def)
  have ne: "?ls \<noteq> []"
    by simp
  show ?thesis
    unfolding e by (rule join_snoc_empty [OF ne])
qed

section \<open>Facts about the loop\<close>

text \<open>In continue-on-fail mode the loop pushes one output per item and runs every item.\<close>

lemma execute_from_continue:
  assumes "continueOnFail w"
  shows "execute_from w i items returnData =
    (Inr (returnData @ map (\<lambda>(k, it). item_output w k it) (enumerate i items)),
     concat (map (\<lambda>(k, it). snd (execute_item w k it)) (enumerate i items)))"
proof (induction items arbitrary: i returnData)
  case Nil
  show ?case by simp
next
  case (Cons it items)
  show ?case
    using assms
    by (cases "execute_item w i it"; cases "fst (execute_item w i it)")
       (simp_all add: Cons.IH item_output_def)
qed

text \<open>Otherwise the loop stops at the first failing item, with that item's error.\<close>

lemma execute_from_abort:
  assumes "\<not> continueOnFail w"
    and "k < length items"
    and "fst (execute_item w (i + k) (items ! k)) = Inl e"
    and "\<forall>j < k. \<not> isl (fst (execute_item w (i + j) (items ! j)))"
  shows "execute_from w i items returnData =
    (Inl e, concat (map (\<lambda>(k, it). snd (execute_item w k it)) (enumerate i (take (Suc k) items))))"
  using assms(2-4)
proof (induction items arbitrary: i k returnData)
  case Nil
  then show ?case by simp
next
  case (Cons it items)
  show ?case
  proof (cases k)
    case 0
    with Cons.prems assms(1) show ?thesis
      by (cases "execute_item w i it") simp
  next
    case (Suc k')
    from Cons.prems(3) Suc have "\<not> isl (fst (execute_item w (i + 0) ((it # items) ! 0)))"
      by blast
    then obtain r reqs where x: "execute_item w i it = (Inr r, reqs)"
      by (cases "execute_item w i it"; cases "fst (execute_item w i it)") simp_all
    have a: "k' < length items"
      using Cons.prems(1) Suc by simp
    have b: "fst (execute_item w (Suc i + k') (items ! k')) = Inl e"
      using Cons.prems(2) Suc by simp
    have c: "\<forall>j < k'. \<not> isl (fst (execute_item w (Suc i + j) (items ! j)))"
    proof (intro allI impI)
      fix j assume "j < k'"
      then have "Suc j < k" using Suc by simp
      with Cons.prems(3) have "\<not> isl (fst (execute_item w (i + Suc j) ((it # items) ! Suc j)))"
        by blast
      then show "\<not> isl (fst (execute_item w (Suc i + j) (items ! j)))"
        by simp
    qed
    show ?thesis
      using Cons.IH [OF a b c] x Suc by simp
  qed
qed

lemma execute_from_all_succeed:
  assumes "\<forall>j < length items. \<not> isl (fst (execute_item w (i + j) (items ! j)))"
  shows "execute_from w i items returnData =
    (Inr (returnData @ map (\<lambda>(k, it). item_output w k it) (enumerate i items)),
     concat (map (\<lambda>(k, it). snd (execute_item w k it)) (enumerate i items)))"
  using assms
proof (induction items arbitrary: i returnData)
  case Nil
  show ?case by simp
next
  case (Cons it items)
  from Cons.prems have "\<not> isl (fst (execute_item w (i + 0) ((it # items) ! 0)))"
    by blast
  then obtain r reqs where x: "execute_item w i it = (Inr r, reqs)"
    by (cases "execute_item w i it"; cases "fst (execute_item w i it)") simp_all
  have c: "\<forall>j < length items. \<not> isl (fst (execute_item w (Suc i + j) (items ! j)))"
  proof (intro allI impI)
    fix j assume "j < length items"
    then have "Suc j < length (it # items)" by simp
    with Cons.prems have "\<not> isl (fst (execute_item w (i + Suc j) ((it # items) ! Suc j)))"
      by blast
    then show "\<not> isl (fst (execute_item w (Suc i + j) (items ! j)))"
      by simp
  qed
  show ?case
    using Cons.IH [OF c] x by (simp add: item_output_def)
qed

section \<open>Facts about the converter\<close>

lemma hasTag_str [simp]: "hasTag t (Element (str t') attrs kids) \<longleftrightarrow> t' = t"
  by auto







section \<open>Facts about documents without links or images\<close>







section \<open>Facts about the sample run\<close>

lemma sample_body:
  "includeLinks opts \<Longrightarrow> imageHandling opts = Include \<Longrightarrow>
   turndown sampleLib (turndownService opts) (content sampleArticle)
     = str ''Hello [world](https://x)![ cat ](https://x/c.png)''"
  by (simp add: turndown_def turndownService_def Let_def sampleArticle_def sampleLib_def
      replacementForNode_def trim_def isWhiteSpace_def str_def)

lemma sample_frontmatter:
  "join [nl] (frontmatterLines sampleArticle (str ''https://example.com/a'') (str ''2024-01-01T00:00:00.000Z''))
     = str ''---'' @ [nl]
       @ str ''title: '' @ [dq] @ str ''Say '' @ [bs, dq] @ str ''hi'' @ [bs, dq] @ [dq] @ [nl]
       @ str ''url: '' @ [dq] @ str ''https://example.com/a'' @ [dq] @ [nl]
       @ str ''site: '' @ [dq] @ str ''Example'' @ [dq] @ [nl]
       @ str ''excerpt: '' @ [dq] @ str ''One two'' @ [dq] @ [nl]
       @ str ''date: '' @ [dq] @ str ''2024-01-01T00:00:00.000Z'' @ [dq] @ [nl]
       @ str ''---'' @ [nl]"
  by (simp add: frontmatterLines_def fieldLine_def sampleArticle_def escapeQuotes_def
      escapedExcerpt_def newlinesToSpaces_def str_def dq_def nl_def bs_def sp_def)

lemma sample_fetch:
  "opt_timeout opts = None \<Longrightarrow>
   fetchHtml (sampleWorld cof) i (str ''http://example.com/a'') (timeout opts)
     = Inr (str ''<html>...</html>'', str ''https://example.com/a'')"
proof -
  assume "opt_timeout opts = None"
  then have t: "timeout opts = 30"
    by (simp add: timeout_def)
  have n: "network (sampleWorld cof) i (str ''http://example.com/a'')
      = Reply 120 (sampleResponse (str ''<html>...</html>''))"
    by (simp add: sampleWorld_def sampleNetwork_def)
  show ?thesis
    using fetchHtml_ok [OF n, of "timeout opts"] by (simp add: t sampleResponse_def)
qed

lemma sample_readability:
  "readability (sampleWorld cof) (str ''<html>...</html>'') u = Some sampleArticle"
  by (simp add: sampleWorld_def emptyPage_def)

lemma sample_nowhere:
  "execute_item (sampleWorld cof) i (sampleItem ''http://nowhere'' noOptions)
     = (Inl (JsError (str ''TypeError'') (str ''fetch failed'')), [str ''http://nowhere''])"
  by (simp add: execute_item_def fetchHtml_def fetch_def sampleWorld_def sampleNetwork_def
      sampleItem_def noOptions_def timeout_def)

lemma sample_no_url:
  "execute_item (sampleWorld cof) i (sampleItem [] noOptions)
     = (Inl (NodeOperationError (str ''URL is required'') i), [])"
  by (simp add: execute_item_def sampleItem_def)

lemma sample_page:
  "\<exists>r. execute_item (sampleWorld cof) i (sampleItem ''http://example.com/a'' noOptions)
     = (Inr r, [str ''http://example.com/a''])"
proof -
  let ?it = "sampleItem ''http://example.com/a'' noOptions"
  have u: "param_url ?it = Some (str ''http://example.com/a'')"
    by (simp add: sampleItem_def)
  have f: "fetchHtml (sampleWorld cof) i (str ''http://example.com/a'') (timeout (param_options ?it))
      = Inr (str ''<html>...</html>'', str ''https://example.com/a'')"
    by (rule sample_fetch) (simp add: sampleItem_def noOptions_def)
  show ?thesis
    using execute_item_parsed [OF u _ f sample_readability] by simp
qed





section \<open>Frontmatter layout\<close>

text \<open>
  Claim C1, as amended. For every article and every configuration with
  \<open>includeFrontmatter\<close> set, the markdown of a successful run starts with a \<open>---\<close> line,
  has the line \<open>url: "..."\<close> holding the URL of the response in double quotes, and has a
  closing \<open>---\<close> line before the Markdown body: it is the frontmatter lines from the
  opening to the closing \<open>---\<close>, each ended by one line feed, followed at once by the
  body. The line feed that ends the closing \<open>---\<close> is all that separates the block from
  the body; the node inserts no blank line, as the counterexample shows on the sample page.
\<close>

theorem frontmatter_layout:
  assumes "param_url it = Some u" and "u \<noteq> []"
    and "network w i u = Reply ms resp" and "int ms < timeout (param_options it) * 1000"
    and "ok resp"
    and "readability w (resp_text resp) (resp_url resp) = Some a"
    and "includeFrontmatter (param_options it)"
  shows "\<exists>r. execute_item w i it = (Inr r, [u])
    \<and> json_markdown r =
        concat (map (\<lambda>l. l @ [nl])
          ([str ''---'']
           @ fieldLine ''title'' escapeQuotes (title a)
           @ [str ''url: '' @ [dq] @ resp_url resp @ [dq]]
           @ fieldLine ''author'' escapeQuotes (byline a)
           @ fieldLine ''site'' escapeQuotes (siteName a)
           @ fieldLine ''excerpt'' escapedExcerpt (excerpt a)
           @ [str ''date: '' @ [dq] @ toISOString w i @ [dq]]
           @ [str ''---'']))
        @ turndown (turndownLib w) (turndownService (param_options it)) (content a)
    \<and> take 4 (json_markdown r) = str ''---'' @ [nl]"
proof -
  have f: "fetchHtml w i u (timeout (param_options it)) = Inr (resp_text resp, resp_url resp)"
    using assms(3-5) by (rule fetchHtml_ok)
  note p = execute_item_parsed [OF assms(1,2) f assms(6)]
  have d: "str ''---'' = [0x2D, 0x2D, 0x2D]"
    by (simp add: str_def)
  show ?thesis
    unfolding p using assms(7)
    by (simp add: frontmatterLines_text d)
qed

theorem frontmatter_layout_witness:
  "param_url (sampleItem ''http://example.com/a'' (noOptions\<lparr>opt_includeFrontmatter := Some True\<rparr>))
     = Some (str ''http://example.com/a'')
   \<and> network (sampleWorld False) 0 (str ''http://example.com/a'')
     = Reply 120 (sampleResponse (str ''<html>...</html>''))
   \<and> readability (sampleWorld False) (str ''<html>...</html>'') (str ''https://example.com/a'')
     = Some sampleArticle
   \<and> includeFrontmatter (noOptions\<lparr>opt_includeFrontmatter := Some True\<rparr>)
   \<and> take 4 (json_markdown (projr (fst (execute_item (sampleWorld False) 0
          (sampleItem ''http://example.com/a'' (noOptions\<lparr>opt_includeFrontmatter := Some True\<rparr>))))))
     = str ''---'' @ [nl]"
proof -
  let ?opts = "noOptions\<lparr>opt_includeFrontmatter := Some True\<rparr>"
  let ?it = "sampleItem ''http://example.com/a'' ?opts"
  let ?u = "str ''http://example.com/a''"
  let ?resp = "sampleResponse (str ''<html>...</html>'')"
  have u: "param_url ?it = Some ?u"
    by (simp add: sampleItem_def)
  have o: "param_options ?it = ?opts"
    by (simp add: sampleItem_def)
  have ne: "?u \<noteq> []"
    by simp
  have n: "network (sampleWorld False) 0 ?u = Reply 120 ?resp"
    by (simp add: sampleWorld_def sampleNetwork_def)
  have t: "int 120 < timeout (param_options ?it) * 1000"
    unfolding o by (simp add: timeout_def noOptions_def)
  have k: "ok ?resp"
    by (simp add: sampleResponse_def)
  have rt: "resp_text ?resp = str ''<html>...</html>''" and ru: "resp_url ?resp = str ''https://example.com/a''"
    by (simp_all add: sampleResponse_def)
  have a: "readability (sampleWorld False) (resp_text ?resp) (resp_url ?resp) = Some sampleArticle"
    unfolding rt by (rule sample_readability)
  have fm: "includeFrontmatter (param_options ?it)"
    by (simp add: o includeFrontmatter_def)
  from frontmatter_layout [OF u ne n t k a fm] obtain r where
    "execute_item (sampleWorld False) 0 ?it = (Inr r, [?u])"
    and "take 4 (json_markdown r) = str ''---'' @ [nl]"
    by blast
  then have "take 4 (json_markdown (projr (fst (execute_item (sampleWorld False) 0 ?it)))) = str ''---'' @ [nl]"
    by simp
  with u n a fm show ?thesis
    unfolding o rt ru by blast
qed

theorem frontmatter_blank_line_counterexample:
  "includeFrontmatter (param_options
      (sampleItem ''http://example.com/a'' (noOptions\<lparr>opt_includeFrontmatter := Some True\<rparr>)))
   \<and> map_sum id (splitLines \<circ> json_markdown)
       (fst (execute_item (sampleWorld False) 0
          (sampleItem ''http://example.com/a'' (noOptions\<lparr>opt_includeFrontmatter := Some True\<rparr>))))
     = Inr [str ''---'',
            str ''title: '' @ [dq] @ str ''Say '' @ [bs, dq] @ str ''hi'' @ [bs, dq] @ [dq],
            str ''url: '' @ [dq] @ str ''https://example.com/a'' @ [dq],
            str ''site: '' @ [dq] @ str ''Example'' @ [dq],
            str ''excerpt: '' @ [dq] @ str ''One two'' @ [dq],
            str ''date: '' @ [dq] @ str ''2024-01-01T00:00:00.000Z'' @ [dq],
            str ''---'',
            str ''Hello [world](https://x)![ cat ](https://x/c.png)'']"
proof -
  let ?opts = "noOptions\<lparr>opt_includeFrontmatter := Some True\<rparr>"
  let ?it = "sampleItem ''http://example.com/a'' ?opts"
  let ?u = "str ''http://example.com/a''"
  have u: "param_url ?it = Some ?u"
    by (simp add: sampleItem_def)
  have o: "param_options ?it = ?opts"
    by (simp add: sampleItem_def)
  have ne: "?u \<noteq> []"
    by simp
  have f: "fetchHtml (sampleWorld False) 0 ?u (timeout (param_options ?it))
      = Inr (str ''<html>...</html>'', str ''https://example.com/a'')"
    unfolding o by (rule sample_fetch) (simp add: noOptions_def)
  note p = execute_item_parsed [OF u ne f sample_readability]
  have fm: "includeFrontmatter ?opts"
    by (simp add: includeFrontmatter_def)
  have b: "turndown (turndownLib (sampleWorld False)) (turndownService ?opts) (content sampleArticle)
      = str ''Hello [world](https://x)![ cat ](https://x/c.png)''"
    unfolding sampleWorld_def
    by (simp add: sample_body includeLinks_def imageHandling_def noOptions_def)
  have iso: "toISOString (sampleWorld False) 0 = str ''2024-01-01T00:00:00.000Z''"
    by (simp add: sampleWorld_def)
  have m: "json_markdown (projr (fst (execute_item (sampleWorld False) 0 ?it)))
      = join [nl] (frontmatterLines sampleArticle (str ''https://example.com/a'') (str ''2024-01-01T00:00:00.000Z''))
        @ str ''Hello [world](https://x)![ cat ](https://x/c.png)''"
    unfolding p by (simp add: o fm b iso)
  have isr: "fst (execute_item (sampleWorld False) 0 ?it)
      = Inr (projr (fst (execute_item (sampleWorld False) 0 ?it)))"
    unfolding p by simp
  have "splitLines (json_markdown (projr (fst (execute_item (sampleWorld False) 0 ?it))))
     = [str ''---'',
            str ''title: '' @ [dq] @ str ''Say '' @ [bs, dq] @ str ''hi'' @ [bs, dq] @ [dq],
            str ''url: '' @ [dq] @ str ''https://example.com/a'' @ [dq],
            str ''site: '' @ [dq] @ str ''Example'' @ [dq],
            str ''excerpt: '' @ [dq] @ str ''One two'' @ [dq],
            str ''date: '' @ [dq] @ str ''2024-01-01T00:00:00.000Z'' @ [dq],
            str ''---'',
            str ''Hello [world](https://x)![ cat ](https://x/c.png)'']"
    unfolding m sample_frontmatter
    by (simp add: str_def dq_def nl_def bs_def)
  then have "map_sum id (splitLines \<circ> json_markdown) (fst (execute_item (sampleWorld False) 0 ?it)) = Inr [str ''---'',
            str ''title: '' @ [dq] @ str ''Say '' @ [bs, dq] @ str ''hi'' @ [bs, dq] @ [dq],
            str ''url: '' @ [dq] @ str ''https://example.com/a'' @ [dq],
            str ''site: '' @ [dq] @ str ''Example'' @ [dq],
            str ''excerpt: '' @ [dq] @ str ''One two'' @ [dq],
            str ''date: '' @ [dq] @ str ''2024-01-01T00:00:00.000Z'' @ [dq],
            str ''---'',
            str ''Hello [world](https://x)![ cat ](https://x/c.png)'']"
    by (subst isr) simp
  moreover have "includeFrontmatter (param_options ?it)"
    unfolding o by (rule fm)
  ultimately show ?thesis
    by blast
qed

section \<open>Links\<close>



section \<open>Images\<close>




section \<open>Escaping in the frontmatter\<close>




section \<open>Extraction failure\<close>

text \<open>
  Claim C5, as amended. When the page is fetched and the readability parse returns
  \<open>null\<close>, the item fails with the node's error whose message is
  \<open>Failed to parse article content from the page\<close>; in continue-on-fail mode that
  message is the \<open>error\<close> of the item's output, and otherwise the error leaves the
  loop. The message is not the spec's \<open>no readable content found\<close>, as the
  counterexample shows on the sample page with an empty body.
\<close>

theorem extraction_failure:
  assumes "param_url it = Some u" and "u \<noteq> []"
    and "fetchHtml w i u (timeout (param_options it)) = Inr (html, finalUrl)"
    and "readability w html finalUrl = None"
  shows "execute_item w i it =
      (Inl (NodeOperationError (str ''Failed to parse article content from the page'') i), [u])
    \<and> execute_from w i [it] returnData =
      (if continueOnFail w
       then (Inr (returnData @ [JsonError (str ''Failed to parse article content from the page'')]), [u])
       else (Inl (NodeOperationError (str ''Failed to parse article content from the page'') i), [u]))"
  using execute_item_unparsed [OF assms] by simp

theorem extraction_failure_witness:
  "param_url (sampleItem ''http://example.com/empty'' noOptions) = Some (str ''http://example.com/empty'')
   \<and> fetchHtml (sampleWorld True) 0 (str ''http://example.com/empty'')
         (timeout (param_options (sampleItem ''http://example.com/empty'' noOptions)))
       = Inr (emptyPage, str ''https://example.com/a'')
   \<and> readability (sampleWorld True) emptyPage (str ''https://example.com/a'') = None
   \<and> execute_from (sampleWorld True) 0 [sampleItem ''http://example.com/empty'' noOptions] []
       = (Inr [JsonError (str ''Failed to parse article content from the page'')],
          [str ''http://example.com/empty''])"
proof -
  let ?it = "sampleItem ''http://example.com/empty'' noOptions"
  let ?u = "str ''http://example.com/empty''"
  have u: "param_url ?it = Some ?u"
    by (simp add: sampleItem_def)
  have ne: "?u \<noteq> []"
    by simp
  have t: "timeout (param_options ?it) = 30"
    by (simp add: sampleItem_def noOptions_def timeout_def)
  have n: "network (sampleWorld True) 0 ?u = Reply 80 (sampleResponse emptyPage)"
    by (simp add: sampleWorld_def sampleNetwork_def)
  have f: "fetchHtml (sampleWorld True) 0 ?u (timeout (param_options ?it))
      = Inr (emptyPage, str ''https://example.com/a'')"
    using fetchHtml_ok [OF n, of "timeout (param_options ?it)"]
    by (simp add: t sampleResponse_def)
  have r: "readability (sampleWorld True) emptyPage (str ''https://example.com/a'') = None"
    by (simp add: sampleWorld_def)
  have c: "continueOnFail (sampleWorld True)"
    by (simp add: sampleWorld_def)
  from extraction_failure [OF u ne f r, of "[]"] c
  have "execute_from (sampleWorld True) 0 [?it] []
       = (Inr [JsonError (str ''Failed to parse article content from the page'')], [?u])"
    by simp
  with u f r show ?thesis
    by blast
qed

theorem extraction_message_counterexample:
  "fst (execute_item (sampleWorld False) 0 (sampleItem ''http://example.com/empty'' noOptions))
     = Inl (NodeOperationError (str ''Failed to parse article content from the page'') 0)
   \<and> error_message (NodeOperationError (str ''Failed to parse article content from the page'') 0)
     \<noteq> str ''no readable content found''"
proof -
  let ?it = "sampleItem ''http://example.com/empty'' noOptions"
  let ?u = "str ''http://example.com/empty''"
  have u: "param_url ?it = Some ?u"
    by (simp add: sampleItem_def)
  have ne: "?u \<noteq> []"
    by simp
  have t: "timeout (param_options ?it) = 30"
    by (simp add: sampleItem_def noOptions_def timeout_def)
  have n: "network (sampleWorld False) 0 ?u = Reply 80 (sampleResponse emptyPage)"
    by (simp add: sampleWorld_def sampleNetwork_def)
  have f: "fetchHtml (sampleWorld False) 0 ?u (timeout (param_options ?it))
      = Inr (emptyPage, str ''https://example.com/a'')"
    using fetchHtml_ok [OF n, of "timeout (param_options ?it)"]
    by (simp add: t sampleResponse_def)
  have r: "readability (sampleWorld False) emptyPage (str ''https://example.com/a'') = None"
    by (simp add: sampleWorld_def)
  show ?thesis
    using execute_item_unparsed [OF u ne f r] by simp
qed

section \<open>The time-out error\<close>

text \<open>
  Claim C6. When the network takes at least the configured time-out to settle the
  request, the item fails with the time-out error, and the message carries the configured
  seconds: between \<open>Request timed out after\<close> and \<open>seconds\<close> stands the decimal numeral of
  the configured time-out (its digits, without leading zeros, after a minus sign when it
  is negative), whatever time the network took. For a supplied non-zero number the
  configured seconds are that number. The time-out is taken to be a safe integer, which
  JavaScript prints in plain decimal.
\<close>

theorem timeout_error:
  assumes "param_url it = Some u" and "u \<noteq> []"
    and "timeout (param_options it) * 1000 \<le> int (latency (network w i u))"
    and "\<bar>timeout (param_options it)\<bar> \<le> 9007199254740991"
  shows "(\<exists>ds. execute_item w i it =
             (Inl (NodeOperationError
                (str ''Request timed out after ''
                 @ (if timeout (param_options it) < 0 then str ''-'' else []) @ ds
                 @ str '' seconds'') i), [u])
           \<and> ds \<noteq> [] \<and> (\<forall>d \<in> set ds. 0x30 \<le> d \<and> d \<le> 0x39)
           \<and> (hd ds = 0x30 \<longrightarrow> ds = [0x30])
           \<and> foldl (\<lambda>a d. 10 * a + (uint d - 48)) 0 ds = \<bar>timeout (param_options it)\<bar>)
    \<and> (\<forall>n. opt_timeout (param_options it) = Some (Num n) \<and> n \<noteq> 0 \<longrightarrow>
           timeout (param_options it) = n)"
proof -
  let ?t = "timeout (param_options it)"
  let ?ds = "digits (nat \<bar>?t\<bar>)"
  have e: "execute_item w i it =
      (Inl (NodeOperationError
          (str ''Request timed out after '' @ (if ?t < 0 then str ''-'' else []) @ ?ds
           @ str '' seconds'') i), [u])"
    using assms(1-3) by (simp add: execute_item_def fetchHtml_late numberToString_safe [OF assms(4)])
  have r: "\<forall>d \<in> set ?ds. 0x30 \<le> d \<and> d \<le> 0x39"
    using digits_range by blast
  have l: "hd ?ds = 0x30 \<longrightarrow> ?ds = [0x30]"
    by (simp add: digits_leading digits_zero)
  have v: "foldl (\<lambda>a d. 10 * a + (uint d - 48)) 0 ?ds = \<bar>?t\<bar>"
    by (simp add: digits_value)
  have s: "\<forall>n. opt_timeout (param_options it) = Some (Num n) \<and> n \<noteq> 0 \<longrightarrow> ?t = n"
    by (simp add: timeout_def)
  from e digits_nonempty [of "nat \<bar>?t\<bar>"] r l v s show ?thesis
    by blast
qed

theorem timeout_error_witness:
  "param_url (sampleItem ''http://example.com/slow'' (noOptions\<lparr>opt_timeout := Some (Num 45)\<rparr>))
     = Some (str ''http://example.com/slow'')
   \<and> latency (network (sampleWorld False) 3 (str ''http://example.com/slow'')) = 45000
   \<and> timeout (noOptions\<lparr>opt_timeout := Some (Num 45)\<rparr>) = 45
   \<and> execute_item (sampleWorld False) 3
        (sampleItem ''http://example.com/slow'' (noOptions\<lparr>opt_timeout := Some (Num 45)\<rparr>))
      = (Inl (NodeOperationError (str ''Request timed out after 45 seconds'') 3),
         [str ''http://example.com/slow''])
   \<and> foldl (\<lambda>a d. 10 * a + (uint d - 48)) 0 (str ''45'') = 45"
proof -
  let ?opts = "noOptions\<lparr>opt_timeout := Some (Num 45)\<rparr>"
  let ?it = "sampleItem ''http://example.com/slow'' ?opts"
  let ?u = "str ''http://example.com/slow''"
  have u: "param_url ?it = Some ?u"
    by (simp add: sampleItem_def)
  have o: "param_options ?it = ?opts"
    by (simp add: sampleItem_def)
  have ne: "?u \<noteq> []"
    by simp
  have l: "latency (network (sampleWorld False) 3 ?u) = 45000"
    by (simp add: sampleWorld_def sampleNetwork_def)
  have t: "timeout ?opts = 45"
    by (simp add: timeout_def)
  have late: "timeout (param_options ?it) * 1000 \<le> int (latency (network (sampleWorld False) 3 ?u))"
    unfolding o t l by simp
  have safe: "\<bar>timeout (param_options ?it)\<bar> \<le> 9007199254740991"
    unfolding o t by simp
  have "numberToString (sampleWorld False) 45 = str ''45''"
    by (simp add: numberToString_def digits.simps str_def)
  then have e: "execute_item (sampleWorld False) 3 ?it =
      (Inl (NodeOperationError (str ''Request timed out after 45 seconds'') 3), [?u])"
    using fetchHtml_late [OF late] u
    by (simp add: execute_item_def o t str_append [symmetric])
  from timeout_error [OF u ne late safe] obtain ds where
    m: "execute_item (sampleWorld False) 3 ?it =
             (Inl (NodeOperationError
                (str ''Request timed out after ''
                 @ (if timeout (param_options ?it) < 0 then str ''-'' else []) @ ds
                 @ str '' seconds'') 3), [?u])"
    and v: "foldl (\<lambda>a d. 10 * a + (uint d - 48)) 0 ds = \<bar>timeout (param_options ?it)\<bar>"
    by blast
  from m e have "str ''Request timed out after '' @ ds @ str '' seconds''
      = str ''Request timed out after '' @ str ''45'' @ str '' seconds''"
    by (simp add: o t str_append [symmetric])
  then have "ds = str ''45''"
    by simp
  with v have f: "foldl (\<lambda>a d. 10 * a + (uint d - 48)) 0 (str ''45'') = 45"
    by (simp add: o t)
  show ?thesis
    by (intro conjI u l t e f)
qed

section \<open>Validation of the URL\<close>

text \<open>
  Claim C7. An item whose URL parameter is missing or the empty string fails with the
  node's error \<open>URL is required\<close> for that item, and the run of the item sends no
  request: its list of requests is empty.
\<close>

theorem url_required:
  assumes "param_url it = None \<or> param_url it = Some []"
  shows "execute_item w i it = (Inl (NodeOperationError (str ''URL is required'') i), [])"
  using assms by (auto simp: execute_item_def)

theorem url_required_witness:
  "param_url (sampleItem '''' noOptions) = Some []
   \<and> execute_item (sampleWorld False) 2 (sampleItem '''' noOptions)
       = (Inl (NodeOperationError (str ''URL is required'') 2), [])"
proof -
  have h: "param_url (sampleItem '''' noOptions) = Some []"
    by (simp add: sampleItem_def)
  then show ?thesis
    using url_required [of "sampleItem '''' noOptions" "sampleWorld False" 2] by simp
qed

section \<open>The batch\<close>

text \<open>
  Claim C8. In continue-on-fail mode the run returns one output per input item, in order:
  the record of an item that succeeds, and \<open>{error: message}\<close> for an item that fails,
  where the message is the one the thrown error was made with, be it the node's own
  error or another; every item is run, so the requests sent are those of all items. With
  the mode off, the first item that fails ends the run with its error, the outputs of the
  items before it are dropped and no later item is run.
\<close>

theorem batch_failure_handling:
  "(continueOnFail w \<longrightarrow>
      (\<exists>outs. fst (execute w items) = Inr outs \<and> length outs = length items
         \<and> (\<forall>k < length items.
               (\<forall>r. fst (execute_item w k (items ! k)) = Inr r \<longrightarrow> outs ! k = Json r)
             \<and> (\<forall>m j. fst (execute_item w k (items ! k)) = Inl (NodeOperationError m j) \<longrightarrow>
                    outs ! k = JsonError m)
             \<and> (\<forall>n m. fst (execute_item w k (items ! k)) = Inl (JsError n m) \<longrightarrow>
                    outs ! k = JsonError m)))
      \<and> snd (execute w items)
          = concat (map (\<lambda>(k, it). snd (execute_item w k it)) (enumerate 0 items)))
   \<and> (\<not> continueOnFail w \<and> k < length items
        \<and> fst (execute_item w k (items ! k)) = Inl e
        \<and> (\<forall>j < k. \<not> isl (fst (execute_item w j (items ! j)))) \<longrightarrow>
      execute w items
        = (Inl e, concat (map (\<lambda>(k, it). snd (execute_item w k it))
                           (enumerate 0 (take (Suc k) items)))))"
proof (intro conjI impI)
  assume c: "continueOnFail w"
  let ?outs = "map (\<lambda>(k, it). item_output w k it) (enumerate 0 items)"
  have x: "execute w items =
      (Inr ?outs, concat (map (\<lambda>(k, it). snd (execute_item w k it)) (enumerate 0 items)))"
    unfolding execute_def using execute_from_continue [OF c, of 0 items "[]"] by simp
  have "\<forall>k < length items.
               (\<forall>r. fst (execute_item w k (items ! k)) = Inr r \<longrightarrow> ?outs ! k = Json r)
             \<and> (\<forall>m j. fst (execute_item w k (items ! k)) = Inl (NodeOperationError m j) \<longrightarrow>
                    ?outs ! k = JsonError m)
             \<and> (\<forall>n m. fst (execute_item w k (items ! k)) = Inl (JsError n m) \<longrightarrow>
                    ?outs ! k = JsonError m)"
    by (simp add: nth_enumerate_eq item_output_def)
  moreover have "length ?outs = length items"
    by simp
  moreover have "fst (execute w items) = Inr ?outs"
    unfolding x by simp
  ultimately show "\<exists>outs. fst (execute w items) = Inr outs \<and> length outs = length items
         \<and> (\<forall>k < length items.
               (\<forall>r. fst (execute_item w k (items ! k)) = Inr r \<longrightarrow> outs ! k = Json r)
             \<and> (\<forall>m j. fst (execute_item w k (items ! k)) = Inl (NodeOperationError m j) \<longrightarrow>
                    outs ! k = JsonError m)
             \<and> (\<forall>n m. fst (execute_item w k (items ! k)) = Inl (JsError n m) \<longrightarrow>
                    outs ! k = JsonError m))"
    by blast
  show "snd (execute w items)
      = concat (map (\<lambda>(k, it). snd (execute_item w k it)) (enumerate 0 items))"
    unfolding x by simp
next
  assume a: "\<not> continueOnFail w \<and> k < length items
        \<and> fst (execute_item w k (items ! k)) = Inl e
        \<and> (\<forall>j < k. \<not> isl (fst (execute_item w j (items ! j))))"
  then have "fst (execute_item w (0 + k) (items ! k)) = Inl e"
    and "\<forall>j < k. \<not> isl (fst (execute_item w (0 + j) (items ! j)))"
    by simp_all
  with a show "execute w items
        = (Inl e, concat (map (\<lambda>(k, it). snd (execute_item w k it))
                           (enumerate 0 (take (Suc k) items))))"
    unfolding execute_def by (intro execute_from_abort) blast+
qed

theorem batch_failure_handling_witness:
  "continueOnFail (sampleWorld True)
   \<and> fst (execute_item (sampleWorld True) 0 (sampleItem ''http://nowhere'' noOptions))
       = Inl (JsError (str ''TypeError'') (str ''fetch failed''))
   \<and> fst (execute_item (sampleWorld True) 1 (sampleItem [] noOptions))
       = Inl (NodeOperationError (str ''URL is required'') 1)
   \<and> fst (execute_item (sampleWorld True) 2 (sampleItem ''http://example.com/a'' noOptions))
       = Inr (projr (fst (execute_item (sampleWorld True) 2 (sampleItem ''http://example.com/a'' noOptions))))
   \<and> fst (execute (sampleWorld True)
        [sampleItem ''http://nowhere'' noOptions, sampleItem [] noOptions,
         sampleItem ''http://example.com/a'' noOptions])
       = Inr [JsonError (str ''fetch failed''), JsonError (str ''URL is required''),
              Json (projr (fst (execute_item (sampleWorld True) 2
                      (sampleItem ''http://example.com/a'' noOptions))))]
   \<and> snd (execute (sampleWorld True)
        [sampleItem ''http://nowhere'' noOptions, sampleItem [] noOptions,
         sampleItem ''http://example.com/a'' noOptions])
       = [str ''http://nowhere'', str ''http://example.com/a'']
   \<and> \<not> continueOnFail (sampleWorld False)
   \<and> \<not> isl (fst (execute_item (sampleWorld False) 0 (sampleItem ''http://example.com/a'' noOptions)))
   \<and> fst (execute_item (sampleWorld False) 1 (sampleItem [] noOptions))
       = Inl (NodeOperationError (str ''URL is required'') 1)
   \<and> execute (sampleWorld False)
        [sampleItem ''http://example.com/a'' noOptions, sampleItem [] noOptions,
         sampleItem ''http://example.com/a'' noOptions]
       = (Inl (NodeOperationError (str ''URL is required'') 1), [str ''http://example.com/a''])"
proof -
  let ?a = "sampleItem ''http://example.com/a'' noOptions"
  let ?n = "sampleItem ''http://nowhere'' noOptions"
  let ?e = "sampleItem [] noOptions"
  let ?err = "JsError (str ''TypeError'') (str ''fetch failed'')"
  let ?req = "NodeOperationError (str ''URL is required'') 1"
  let ?items = "[?n, ?e, ?a]"
  let ?r2 = "projr (fst (execute_item (sampleWorld True) 2 ?a))"
  have ct: "continueOnFail (sampleWorld True)" and cf: "\<not> continueOnFail (sampleWorld False)"
    by (simp_all add: sampleWorld_def)
  have pa: "snd (execute_item (sampleWorld cof) i ?a) = [str ''http://example.com/a'']"
      and ia: "\<not> isl (fst (execute_item (sampleWorld cof) i ?a))"
      and ra: "fst (execute_item (sampleWorld cof) i ?a) = Inr (projr (fst (execute_item (sampleWorld cof) i ?a)))"
      for cof i
    using sample_page [of cof i] by auto
  have x0: "fst (execute_item (sampleWorld True) 0 ?n) = Inl ?err"
    by (simp add: sample_nowhere)
  have x1: "fst (execute_item (sampleWorld cof) 1 ?e) = Inl ?req" for cof
    by (simp only: sample_no_url fst_conv)
  \<comment> \<open>continue-on-fail mode\<close>
  note T = batch_failure_handling [of "sampleWorld True" ?items 0 ?err]
  from T ct obtain outs where
    o: "fst (execute (sampleWorld True) ?items) = Inr outs" and len: "length outs = length ?items"
    and k: "\<forall>k < length ?items.
               (\<forall>r. fst (execute_item (sampleWorld True) k (?items ! k)) = Inr r \<longrightarrow> outs ! k = Json r)
             \<and> (\<forall>m j. fst (execute_item (sampleWorld True) k (?items ! k)) = Inl (NodeOperationError m j) \<longrightarrow>
                    outs ! k = JsonError m)
             \<and> (\<forall>n m. fst (execute_item (sampleWorld True) k (?items ! k)) = Inl (JsError n m) \<longrightarrow>
                    outs ! k = JsonError m)"
    by blast
  have i0: "(0::nat) < length ?items" and i1: "(1::nat) < length ?items" and i2: "(2::nat) < length ?items"
    by simp_all
  from k i0 x0 have o0: "outs ! 0 = JsonError (str ''fetch failed'')"
    by (metis nth_Cons_0)
  have n1: "?items ! 1 = ?e" and n2: "?items ! 2 = ?a"
    by simp_all
  from k i1 x1 [of True] n1 have o1: "outs ! 1 = JsonError (str ''URL is required'')"
    by metis
  from k i2 ra [of True 2] n2 have o2: "outs ! 2 = Json ?r2"
    by metis
  from len have "length outs = 3"
    by simp
  then obtain a b c where "outs = [a, b, c]"
    by (metis (no_types) length_0_conv length_Suc_conv numeral_3_eq_3)
  with o0 o1 o2 have "outs = [JsonError (str ''fetch failed''), JsonError (str ''URL is required''), Json ?r2]"
    by simp
  with o have outs: "fst (execute (sampleWorld True) ?items)
      = Inr [JsonError (str ''fetch failed''), JsonError (str ''URL is required''), Json ?r2]"
    by simp
  from T ct have "snd (execute (sampleWorld True) ?items)
      = concat (map (\<lambda>(k, it). snd (execute_item (sampleWorld True) k it)) (enumerate 0 ?items))"
    by blast
  then have reqs: "snd (execute (sampleWorld True) ?items)
      = [str ''http://nowhere'', str ''http://example.com/a'']"
    by (simp add: sample_nowhere sample_no_url pa)
  \<comment> \<open>abort mode\<close>
  have f1: "fst (execute_item (sampleWorld False) 1 ([?a, ?e, ?a] ! 1)) = Inl ?req"
    using x1 [of False] by simp
  have f0: "\<forall>j < (1::nat). \<not> isl (fst (execute_item (sampleWorld False) j ([?a, ?e, ?a] ! j)))"
    by (simp add: ia)
  have "(1::nat) < length [?a, ?e, ?a]"
    by simp
  with batch_failure_handling [of "sampleWorld False" "[?a, ?e, ?a]" 1 ?req] cf f1 f0
  have "execute (sampleWorld False) [?a, ?e, ?a]
      = (Inl ?req, concat (map (\<lambda>(k, it). snd (execute_item (sampleWorld False) k it))
                           (enumerate 0 (take (Suc 1) [?a, ?e, ?a]))))"
    by blast
  then have ab: "execute (sampleWorld False) [?a, ?e, ?a] = (Inl ?req, [str ''http://example.com/a''])"
    by (simp add: sample_no_url pa)
  show ?thesis
    by (intro conjI ct x0 x1 ra outs reqs cf ia ab)
qed

section \<open>The default time-out\<close>

text \<open>
  Claim C9. When the time-out option is absent, zero or \<open>NaN\<close>, the effective time-out
  is 30 seconds: a supplied 0 does not abort the fetch at once, the fetch is aborted
  exactly when the answer takes 30000 milliseconds or more.
\<close>

theorem timeout_default:
  assumes "opt_timeout opts = None \<or> opt_timeout opts = Some (Num 0) \<or> opt_timeout opts = Some NaN"
  shows "timeout opts = 30
    \<and> (network w i u = Reply ms r \<longrightarrow>
         fetch w i u (timeout opts) = (if ms < 30000 then Inr r else Inl AbortError))"
proof -
  from assms have t: "timeout opts = 30"
    by (auto simp: timeout_def)
  then show ?thesis
    by (auto simp: fetch_def)
qed

theorem timeout_default_witness:
  "opt_timeout (noOptions\<lparr>opt_timeout := Some (Num 0)\<rparr>) = Some (Num 0)
   \<and> timeout (noOptions\<lparr>opt_timeout := Some (Num 0)\<rparr>) = 30
   \<and> network (sampleWorld False) 0 (str ''http://example.com/a'')
       = Reply 120 (sampleResponse (str ''<html>...</html>''))
   \<and> fetch (sampleWorld False) 0 (str ''http://example.com/a'') (timeout (noOptions\<lparr>opt_timeout := Some (Num 0)\<rparr>))
       = Inr (sampleResponse (str ''<html>...</html>''))"
proof -
  let ?opts = "noOptions\<lparr>opt_timeout := Some (Num 0)\<rparr>"
  let ?r = "sampleResponse (str ''<html>...</html>'')"
  have h: "opt_timeout ?opts = Some (Num 0)"
    by simp
  then have d: "opt_timeout ?opts = None \<or> opt_timeout ?opts = Some (Num 0) \<or> opt_timeout ?opts = Some NaN"
    by blast
  have n: "network (sampleWorld False) 0 (str ''http://example.com/a'') = Reply 120 ?r"
    by (simp add: sampleWorld_def sampleNetwork_def)
  note T = timeout_default [OF d, of "sampleWorld False" 0 "str ''http://example.com/a''" 120 ?r]
  from T have t: "timeout ?opts = 30"
    by (rule conjunct1)
  from T n have "fetch (sampleWorld False) 0 (str ''http://example.com/a'') (timeout ?opts)
      = (if (120::nat) < 30000 then Inr ?r else Inl AbortError)"
    by blast
  then have f: "fetch (sampleWorld False) 0 (str ''http://example.com/a'') (timeout ?opts) = Inr ?r"
    by simp
  from h t n f show ?thesis
    by blast
qed

section \<open>The success record\<close>

text \<open>
  Claim C10. On every successful run of an item, \<open>contentLength\<close> is the length (in
  UTF-16 code units, as \<open>String.length\<close> counts) of the \<open>markdown\<close> of the same record,
  which includes the frontmatter block when \<open>includeFrontmatter\<close> is set, and \<open>url\<close> is
  the URL of the response the fetch returned, whatever URL was requested.
\<close>

theorem success_record:
  assumes "execute_item w i it = (Inr r, reqs)"
  shows "json_contentLength r = length (json_markdown r)
    \<and> (\<exists>u ms resp a.
          param_url it = Some u \<and> network w i u = Reply ms resp \<and> json_url r = resp_url resp
          \<and> readability w (resp_text resp) (resp_url resp) = Some a
          \<and> (if includeFrontmatter (param_options it)
             then json_markdown r =
                    join [nl] (frontmatterLines a (resp_url resp) (toISOString w i))
                    @ turndown (turndownLib w) (turndownService (param_options it)) (content a)
                  \<and> json_contentLength r =
                    length (join [nl] (frontmatterLines a (resp_url resp) (toISOString w i)))
                    + length (turndown (turndownLib w) (turndownService (param_options it)) (content a))
             else json_markdown r =
                    turndown (turndownLib w) (turndownService (param_options it)) (content a)))"
proof -
  from execute_item_InrD [OF assms] obtain u html finalUrl a where
    u: "param_url it = Some u" "u \<noteq> []"
    and f: "fetchHtml w i u (timeout (param_options it)) = Inr (html, finalUrl)"
    and a: "readability w html finalUrl = Some a"
    by blast
  from fetchHtml_InrD [OF f] obtain ms resp where
    n: "network w i u = Reply ms resp" and h: "html = resp_text resp" "finalUrl = resp_url resp"
    by blast
  from execute_item_parsed [OF u f a] assms
  have r: "r = \<lparr>json_url = finalUrl, json_title = title a, json_byline = byline a,
          json_excerpt = excerpt a, json_siteName = siteName a,
          json_markdown =
            (if includeFrontmatter (param_options it)
             then join [nl] (frontmatterLines a finalUrl (toISOString w i))
                  @ turndown (turndownLib w) (turndownService (param_options it)) (content a)
             else turndown (turndownLib w) (turndownService (param_options it)) (content a)),
          json_contentLength = length
            (if includeFrontmatter (param_options it)
             then join [nl] (frontmatterLines a finalUrl (toISOString w i))
                  @ turndown (turndownLib w) (turndownService (param_options it)) (content a)
             else turndown (turndownLib w) (turndownService (param_options it)) (content a))\<rparr>"
    by simp
  have len: "json_contentLength r = length (json_markdown r)"
    by (subst (1 2) r) simp
  have "param_url it = Some u \<and> network w i u = Reply ms resp \<and> json_url r = resp_url resp
          \<and> readability w (resp_text resp) (resp_url resp) = Some a
          \<and> (if includeFrontmatter (param_options it)
             then json_markdown r =
                    join [nl] (frontmatterLines a (resp_url resp) (toISOString w i))
                    @ turndown (turndownLib w) (turndownService (param_options it)) (content a)
                  \<and> json_contentLength r =
                    length (join [nl] (frontmatterLines a (resp_url resp) (toISOString w i)))
                    + length (turndown (turndownLib w) (turndownService (param_options it)) (content a))
             else json_markdown r =
                    turndown (turndownLib w) (turndownService (param_options it)) (content a))"
    using u n a h by (subst (1 2 3 4) r) simp
  with len show ?thesis
    by blast
qed

theorem success_record_witness:
  "fst (execute_item (sampleWorld False) 0
          (sampleItem ''http://example.com/a'' (noOptions\<lparr>opt_includeFrontmatter := Some True\<rparr>)))
     = Inr (projr (fst (execute_item (sampleWorld False) 0
          (sampleItem ''http://example.com/a'' (noOptions\<lparr>opt_includeFrontmatter := Some True\<rparr>)))))
   \<and> json_contentLength (projr (fst (execute_item (sampleWorld False) 0
          (sampleItem ''http://example.com/a'' (noOptions\<lparr>opt_includeFrontmatter := Some True\<rparr>)))))
     = 174
   \<and> length (json_markdown (projr (fst (execute_item (sampleWorld False) 0
          (sampleItem ''http://example.com/a'' (noOptions\<lparr>opt_includeFrontmatter := Some True\<rparr>))))))
     = 174
   \<and> json_url (projr (fst (execute_item (sampleWorld False) 0
          (sampleItem ''http://example.com/a'' (noOptions\<lparr>opt_includeFrontmatter := Some True\<rparr>)))))
     = str ''https://example.com/a''"
proof -
  let ?opts = "noOptions\<lparr>opt_includeFrontmatter := Some True\<rparr>"
  let ?it = "sampleItem ''http://example.com/a'' ?opts"
  let ?u = "str ''http://example.com/a''"
  let ?X = "execute_item (sampleWorld False) 0 ?it"
  let ?r = "projr (fst ?X)"
  have u: "param_url ?it = Some ?u"
    by (simp add: sampleItem_def)
  have o: "param_options ?it = ?opts"
    by (simp add: sampleItem_def)
  have ne: "?u \<noteq> []"
    by simp
  have f: "fetchHtml (sampleWorld False) 0 ?u (timeout (param_options ?it))
      = Inr (str ''<html>...</html>'', str ''https://example.com/a'')"
    unfolding o by (rule sample_fetch) (simp add: noOptions_def)
  note p = execute_item_parsed [OF u ne f sample_readability]
  from p have run: "?X = (Inr ?r, snd ?X)"
    by simp
  from p have url: "json_url ?r = str ''https://example.com/a''"
    by simp
  have fm: "includeFrontmatter ?opts"
    by (simp add: includeFrontmatter_def)
  have b: "turndown (turndownLib (sampleWorld False)) (turndownService ?opts) (content sampleArticle)
      = str ''Hello [world](https://x)![ cat ](https://x/c.png)''"
    unfolding sampleWorld_def
    by (simp add: sample_body includeLinks_def imageHandling_def noOptions_def)
  have iso: "toISOString (sampleWorld False) 0 = str ''2024-01-01T00:00:00.000Z''"
    by (simp add: sampleWorld_def)
  from p have isr: "fst ?X = Inr ?r"
    by simp
  from p have len: "length (json_markdown ?r) = 174"
    by (simp add: o fm b iso sample_frontmatter)
  from success_record [OF run] have c: "json_contentLength ?r = length (json_markdown ?r)"
    by (rule conjunct1)
  have cl: "json_contentLength ?r = 174"
    by (rule trans [OF c len])
  show ?thesis
    by (intro conjI isr cl len url)
qed

end
